theory Spec2Isabelle
  imports Main "HOL-Library.Sublist" "HOL-Library.Product_Lexorder"
begin

section \<open>Strings\<close>

text \<open>
  A Python \<open>str\<close> is a sequence of Unicode code points, and \<open>len\<close> counts code points;
  it is modelled as a list of integers, the code points. ASCII literals are written through \<open>u\<close>,
  the Chinese keywords of the source as lists of code points (\<open>0x767B\<close> is U+767B).
\<close>

type_synonym ustr = "int list"

definition u :: "string \<Rightarrow> ustr" where
  "u s = map of_char s"

text \<open>
  The character classes of Python are tables of the Unicode database. The model has them
  on the alphabets the source's own tables are written in: \<open>str.lower\<close> maps the ASCII
  capitals and leaves every other code point alone, \<open>\d\<close> is an ASCII digit, \<open>\w\<close> is an
  ASCII letter, digit or underscore or a CJK unified ideograph; \<open>str.isspace\<close> is the
  complete table of Python 3.
\<close>

definition py_isspace :: "int \<Rightarrow> bool" where
  "py_isspace c =
     ((9 \<le> c \<and> c \<le> 13) \<or> (28 \<le> c \<and> c \<le> 32) \<or> c = 133 \<or> c = 160 \<or> c = 5760 \<or>
      (8192 \<le> c \<and> c \<le> 8202) \<or> c = 8232 \<or> c = 8233 \<or> c = 8239 \<or> c = 8287 \<or> c = 12288)"

definition py_isdigit :: "int \<Rightarrow> bool" where
  "py_isdigit c = (48 \<le> c \<and> c \<le> 57)"

definition py_isword :: "int \<Rightarrow> bool" where
  "py_isword c =
     ((48 \<le> c \<and> c \<le> 57) \<or> (65 \<le> c \<and> c \<le> 90) \<or> c = 95 \<or> (97 \<le> c \<and> c \<le> 122) \<or>
      (0x4E00 \<le> c \<and> c \<le> 0x9FFF))"

definition lower_char :: "int \<Rightarrow> int" where
  "lower_char c = (if 65 \<le> c \<and> c \<le> 90 then c + 32 else c)"

definition lower :: "ustr \<Rightarrow> ustr" where
  "lower s = map lower_char s"

definition strip :: "ustr \<Rightarrow> ustr" where
  "strip s = rev (dropWhile py_isspace (rev (dropWhile py_isspace s)))"

text \<open>\<open>isin a b\<close> is Python's \<open>a in b\<close> on strings: \<open>a\<close> occurs in \<open>b\<close> as a contiguous run.\<close>

fun isin :: "ustr \<Rightarrow> ustr \<Rightarrow> bool" where
  "isin a [] = (a = [])"
| "isin a (c # cs) = (prefix a (c # cs) \<or> isin a cs)"

text \<open>\<open>str.split()\<close> with no argument: the maximal runs of non-whitespace.\<close>

fun split_ws :: "ustr \<Rightarrow> ustr \<Rightarrow> ustr list" where
  "split_ws w [] = (if w = [] then [] else [rev w])"
| "split_ws w (c # cs) =
     (if py_isspace c then (if w = [] then split_ws [] cs else rev w # split_ws [] cs)
      else split_ws (c # w) cs)"

definition split :: "ustr \<Rightarrow> ustr list" where
  "split s = split_ws [] s"

text \<open>\<open>str(n)\<close> for a non-negative integer: its decimal digits.\<close>

function str_nat :: "nat \<Rightarrow> ustr" where
  "str_nat n = (if n < 10 then [48 + int n] else str_nat (n div 10) @ [48 + int (n mod 10)])"
  by pat_completeness auto
termination
  by (relation "measure id") auto

definition join :: "ustr \<Rightarrow> ustr list \<Rightarrow> ustr" where
  "join sep xs = (case xs of [] \<Rightarrow> [] | y # ys \<Rightarrow> y @ concat (map (\<lambda>z. sep @ z) ys))"


section \<open>Regular expressions\<close>

text \<open>
  The patterns of the source are built from literals, \<open>\d\<close>, \<open>\s\<close>, character sets,
  sequence, alternation and greedy repetition. \<open>rmatch r s\<close> lists what is left of \<open>s\<close> after each
  way \<open>r\<close> can match at its start, in the order a backtracking matcher tries them, so its
  head is the match \<open>re\<close> reports.
\<close>

datatype re =
    Lit ustr
  | Dig
  | Cls "int list" bool
  | Seq re re
  | Alt re re
  | Rep nat nat re
  | Plus re
  | Star re
  | Spc

fun reps :: "(ustr \<Rightarrow> ustr list) \<Rightarrow> nat \<Rightarrow> nat \<Rightarrow> ustr \<Rightarrow> ustr list" where
  "reps m lo 0 s = (if lo = 0 then [s] else [])"
| "reps m lo (Suc hi) s =
     concat (map (reps m (lo - 1) hi) (m s)) @ (if lo = 0 then [s] else [])"

fun rmatch :: "re \<Rightarrow> ustr \<Rightarrow> ustr list" where
  "rmatch (Lit w) s = (if prefix w s then [drop (length w) s] else [])"
| "rmatch Dig s = (case s of [] \<Rightarrow> [] | c # cs \<Rightarrow> if py_isdigit c then [cs] else [])"
| "rmatch (Cls cl d) s =
     (case s of [] \<Rightarrow> [] | c # cs \<Rightarrow> if c \<in> set cl \<or> (d \<and> py_isdigit c) then [cs] else [])"
| "rmatch (Seq a b) s = concat (map (rmatch b) (rmatch a s))"
| "rmatch (Alt a b) s = rmatch a s @ rmatch b s"
| "rmatch (Rep lo hi a) s = reps (rmatch a) lo hi s"
| "rmatch (Plus a) s = reps (rmatch a) 1 (length s) s"
| "rmatch (Star a) s = reps (rmatch a) 0 (length s) s"
| "rmatch Spc s = (case s of [] \<Rightarrow> [] | c # cs \<Rightarrow> if py_isspace c then [cs] else [])"

text \<open>\<open>re.search(r, s)\<close> finds a match: at some position of \<open>s\<close> the pattern matches.\<close>

fun re_search :: "re \<Rightarrow> ustr \<Rightarrow> bool" where
  "re_search r [] = (rmatch r [] \<noteq> [])"
| "re_search r (c # cs) = (rmatch r (c # cs) \<noteq> [] \<or> re_search r cs)"


definition alts :: "ustr list \<Rightarrow> re" where
  "alts ws = foldr (\<lambda>w r. Alt (Lit w) r) (butlast ws) (Lit (last ws))"

definition seqs :: "re list \<Rightarrow> re" where
  "seqs rs = foldr Seq (butlast rs) (last rs)"


section \<open>The document tree\<close>

text \<open>
  An lxml element has a tag, a dictionary of attributes, the text before its first child,
  its children in order, and the text that follows it inside its parent (its tail);
  the fields \<open>etext\<close> and \<open>etail\<close> are lxml's \<open>text\<close> and \<open>tail\<close>.
  A missing text or tail is the empty string. Comments and processing instructions are
  not elements of the model: no XPath expression of the source selects them.
\<close>

datatype element =
  Element (tag: ustr) (attrib: "(ustr \<times> ustr) list") (etext: ustr)
          (children: "element list") (etail: ustr)

text \<open>\<open>element.get(key)\<close> and \<open>element.get(key, '')\<close>.\<close>

definition el_get :: "element \<Rightarrow> ustr \<Rightarrow> ustr option" where
  "el_get e k = map_of (attrib e) k"

definition el_get_str :: "element \<Rightarrow> ustr \<Rightarrow> ustr" where
  "el_get_str e k = (case el_get e k of None \<Rightarrow> [] | Some v \<Rightarrow> v)"

text \<open>\<open>element.text_content()\<close>: all the text inside the element, in document order.\<close>

fun text_content :: "element \<Rightarrow> ustr" where
  "text_content (Element t a x cs ta) = x @ concat (map (\<lambda>c. text_content c @ etail c) cs)"

text \<open>The XPath \<open>.//*\<close>: every element below \<open>e\<close>, in document order.\<close>

fun descendants :: "element \<Rightarrow> element list" where
  "descendants (Element t a x cs ta) = concat (map (\<lambda>c. c # descendants c) cs)"

definition xpath_tags :: "ustr list \<Rightarrow> element \<Rightarrow> element list" where
  "xpath_tags ts e = filter (\<lambda>d. tag d \<in> set ts) (descendants e)"


section \<open>The candidate scorer\<close>

definition classes_of :: "element \<Rightarrow> ustr" where
  "classes_of e = lower (el_get_str e (u ''class''))"

definition elem_id_of :: "element \<Rightarrow> ustr" where
  "elem_id_of e = lower (el_get_str e (u ''id''))"

definition text_length :: "element \<Rightarrow> nat" where
  "text_length e = length (strip (text_content e))"

definition strong_interference_keywords :: "ustr list" where
  "strong_interference_keywords =
     [u ''header'', u ''footer'', u ''nav'', u ''navigation'', u ''menu'', u ''menubar'',
      u ''topbar'', u ''bottom'', u ''sidebar'', u ''aside'', u ''banner'', u ''ad'',
      u ''advertisement'']"

text \<open>
  \<open>create_pattern(keyword).search(s)\<close> for the pattern
  \<^verbatim>\<open>(^|[^\w-])keyword([^\w-]|$)\<close>: the keyword stands in \<open>s\<close> with no word character and
  no hyphen next to it on either side. \<open>prev\<close> is the character before the position looked
  at (\<open>None\<close> at the start of the string).
\<close>

definition word_or_hyphen :: "int \<Rightarrow> bool" where
  "word_or_hyphen c = (py_isword c \<or> c = 45)"

definition boundary_here :: "ustr \<Rightarrow> int option \<Rightarrow> ustr \<Rightarrow> bool" where
  "boundary_here kw prev s =
     ((case prev of None \<Rightarrow> True | Some p \<Rightarrow> \<not> word_or_hyphen p) \<and> prefix kw s \<and>
      (case drop (length kw) s of [] \<Rightarrow> True | c # _ \<Rightarrow> \<not> word_or_hyphen c))"

fun pattern_search_from :: "ustr \<Rightarrow> int option \<Rightarrow> ustr \<Rightarrow> bool" where
  "pattern_search_from kw prev [] = boundary_here kw prev []"
| "pattern_search_from kw prev (c # cs) =
     (boundary_here kw prev (c # cs) \<or> pattern_search_from kw (Some c) cs)"

definition pattern_search :: "ustr \<Rightarrow> ustr \<Rightarrow> bool" where
  "pattern_search kw s = pattern_search_from kw None s"

definition combined_text :: "element \<Rightarrow> ustr" where
  "combined_text e = lower (strip (classes_of e @ u '' '' @ elem_id_of e))"

definition found_interference_keywords :: "element \<Rightarrow> ustr list" where
  "found_interference_keywords e =
     filter (\<lambda>kw. pattern_search kw (combined_text e)) strong_interference_keywords"

definition interference_count :: "element \<Rightarrow> nat" where
  "interference_count e = length (found_interference_keywords e)"

definition header_content_keywords :: "ustr list" where
  "header_content_keywords =
    [[0x767B, 0x5F55], [0x6CE8, 0x518C], [0x9996, 0x9875], [0x4E3B, 0x9875],
     [0x65E0, 0x969C, 0x788D], [0x653F, 0x52A1], [0x529E, 0x4E8B], [0x4E92, 0x52A8],
     [0x8D70, 0x8FDB], [0x79FB, 0x52A8, 0x7248], [0x624B, 0x673A, 0x7248],
     [0x5BFC, 0x822A], [0x83DC, 0x5355], [0x641C, 0x7D22], [0x5E02, 0x653F, 0x5E9C],
     u ''login'', u ''register'', u ''home'', u ''menu'', u ''search'', u ''nav'']"

definition footer_content_keywords :: "ustr list" where
  "footer_content_keywords =
    [[0x7F51, 0x7AD9, 0x8BF4, 0x660E], [0x7F51, 0x7AD9, 0x6807, 0x8BC6, 0x7801],
     [0x7248, 0x6743, 0x6240, 0x6709], [0x4E3B, 0x529E, 0x5355, 0x4F4D],
     [0x627F, 0x529E, 0x5355, 0x4F4D], [0x6280, 0x672F, 0x652F, 0x6301],
     [0x8054, 0x7CFB, 0x6211, 0x4EEC], [0x7F51, 0x7AD9, 0x5730, 0x56FE],
     [0x9690, 0x79C1, 0x653F, 0x7B56], [0x514D, 0x8D23, 0x58F0, 0x660E],
     [0x5907, 0x6848, 0x53F7], u ''icp'', [0x516C, 0x5B89, 0x5907, 0x6848],
     [0x653F, 0x5E9C, 0x7F51, 0x7AD9], [0x7F51, 0x7AD9, 0x7BA1, 0x7406],
     u ''copyright'', u ''all rights reserved'', u ''powered by'',
     u ''designed by'']"

text \<open>The two breadcrumb phrases ("current position") that switch the header keywords off.\<close>

definition breadcrumb_phrase :: ustr where
  "breadcrumb_phrase = [0x5F53, 0x524D, 0x4F4D, 0x7F6E]"

definition breadcrumb_phrase_de :: ustr where
  "breadcrumb_phrase_de = [0x5F53, 0x524D, 0x7684, 0x4F4D, 0x7F6E]"

definition found_header_keywords :: "element \<Rightarrow> ustr list" where
  "found_header_keywords e =
     filter (\<lambda>keyword. isin keyword (lower (text_content e)) \<and>
                \<not> (isin breadcrumb_phrase (lower (text_content e)) \<or>
                   isin breadcrumb_phrase_de (lower (text_content e))))
       header_content_keywords"

definition found_footer_keywords :: "element \<Rightarrow> ustr list" where
  "found_footer_keywords e =
     filter (\<lambda>keyword. isin keyword (lower (text_content e))) footer_content_keywords"

definition header_content_count :: "element \<Rightarrow> nat" where
  "header_content_count e = length (found_header_keywords e)"

definition footer_content_count :: "element \<Rightarrow> nat" where
  "footer_content_count e = length (found_footer_keywords e)"

text \<open>What step 3 takes off the score for header words and for footer words.\<close>

definition header_penalty :: "element \<Rightarrow> int" where
  "header_penalty e =
     (if header_content_count e \<ge> 3 then 300 else if header_content_count e \<ge> 2 then 150 else 0)"

definition footer_penalty :: "element \<Rightarrow> int" where
  "footer_penalty e =
     (if footer_content_count e \<ge> 3 then 300 else if footer_content_count e \<ge> 2 then 150 else 0)"

definition length_score :: "element \<Rightarrow> int" where
  "length_score e =
     (if text_length e > 1000 then 50
      else if text_length e > 500 then 35
      else if text_length e > 200 then 20
      else if text_length e < 50 then - 20
      else 0)"

definition role_score :: "element \<Rightarrow> int" where
  "role_score e =
     (let role = lower (el_get_str e (u ''role'')) in
      if role = u ''viewlist'' then 150
      else if role \<in> set [u ''list'', u ''listbox'', u ''grid'', u ''main'', u ''article''] then 50
      else 0)"

text \<open>
  The table of content patterns of step 6, each with its weight: dates, official-document
  words, numbered clauses, government metadata, attachments, transitional phrases, news
  words, and generic content words.
\<close>

definition d4 :: re where "d4 = Rep 4 4 Dig"
definition d2 :: re where "d2 = Rep 2 2 Dig"
definition d12 :: re where "d12 = Rep 1 2 Dig"

definition date_iso :: re where
  "date_iso = seqs [d4, Lit (u ''-''), d2, Lit (u ''-''), d2]"

definition date_cn :: re where
  "date_cn = seqs [d4, Lit [0x5E74], d12, Lit [0x6708], d12, Lit [0x65E5]]"

definition date_slash :: re where
  "date_slash = seqs [d4, Lit (u ''/''), d12, Lit (u ''/''), d12]"

definition cn_numerals :: "int list" where
  "cn_numerals = [0x4E00, 0x4E8C, 0x4E09, 0x56DB, 0x4E94, 0x516D, 0x4E03, 0x516B, 0x4E5D, 0x5341]"

definition clause :: "int \<Rightarrow> re" where
  "clause unit = seqs [Lit [0x7B2C], Plus (Cls cn_numerals True), Lit [unit]]"

definition content_indicators :: "(re \<times> int) list" where
  "content_indicators =
    [(Alt date_iso (Alt date_cn (Alt date_slash
        (alts [[0x53D1, 0x5E03, 0x65F6, 0x95F4], [0x66F4, 0x65B0, 0x65E5, 0x671F],
               [0x53D1, 0x5E03, 0x65E5, 0x671F], [0x6210, 0x6587, 0x65E5, 0x671F]]))), 30),
     (alts [[0x901A, 0x77E5], [0x516C, 0x544A], [0x610F, 0x89C1], [0x529E, 0x6CD5],
            [0x89C4, 0x5B9A], [0x63AA, 0x65BD], [0x65B9, 0x6848], [0x51B3, 0x5B9A],
            [0x6307, 0x5BFC], [0x5B9E, 0x65BD]], 40),
     (Alt (clause 0x6761) (Alt (clause 0x7AE0) (clause 0x8282)), 35),
     (alts [[0x7D22, 0x5F15, 0x53F7], [0x4E3B, 0x9898, 0x5206, 0x7C7B],
            [0x53D1, 0x6587, 0x673A, 0x5173], [0x53D1, 0x6587, 0x5B57, 0x53F7],
            [0x6709, 0x6548, 0x6027]], 25),
     (alts [[0x9644, 0x4EF6], [0x4E0B, 0x8F7D], u ''pdf'', u ''doc'', u ''docx'',
            [0x6587, 0x4EF6, 0x4E0B, 0x8F7D]], 20),
     (alts [[0x4E3A, 0x4E86], [0x6839, 0x636E], [0x6309, 0x7167], [0x4F9D, 0x636E],
            [0x73B0, 0x5C06], [0x7279, 0x5236, 0x5B9A], [0x73B0, 0x5370, 0x53D1],
            [0x8BF7, 0x7ED3, 0x5408, 0x5B9E, 0x9645]], 30),
     (alts [[0x8BB0, 0x8005], [0x62A5, 0x9053], [0x6D88, 0x606F], [0x65B0, 0x95FB],
            [0x91C7, 0x8BBF], [0x53D1, 0x8868], [0x520A, 0x767B]], 25),
     (alts [[0x6B63, 0x6587], [0x5185, 0x5BB9], [0x8BE6, 0x60C5], [0x5168, 0x6587],
            [0x6458, 0x8981], [0x6982, 0x8FF0]], 20)]"

definition total_content_score :: "element \<Rightarrow> int" where
  "total_content_score e =
     sum_list (map snd (filter (\<lambda>(pattern, weight). re_search pattern (text_content e))
                          content_indicators))"

definition content_pattern_score :: "element \<Rightarrow> int" where
  "content_pattern_score e =
     (if total_content_score e > 0 then min (total_content_score e) 120 else 0)"

definition positive_keywords :: "ustr list" where
  "positive_keywords =
     [u ''content'', u ''main'', u ''article'', u ''news'', u ''data'', u ''info'',
      u ''detail'', u ''result'', u ''list'', u ''body'', u ''text'', u ''container'']"

definition positive_matches :: "element \<Rightarrow> nat" where
  "positive_matches e =
     length (filter (\<lambda>keyword. isin keyword (classes_of e) \<or> isin keyword (elem_id_of e))
               positive_keywords)"

definition positive_score :: "element \<Rightarrow> int" where
  "positive_score e =
     (if positive_matches e > 0 then min (int (positive_matches e) * 20) 60 else 0)"

text \<open>
  The XPath of step 8: paragraphs, headings, list items, tables and sections below the
  node, and the \<open>div\<close>s whose \<open>class\<close> attribute contains \<open>content\<close>.
\<close>

definition structured_elements :: "element \<Rightarrow> element list" where
  "structured_elements e =
     filter (\<lambda>d. tag d \<in> set [u ''p'', u ''h1'', u ''h2'', u ''h3'', u ''h4'', u ''h5'', u ''h6'',
                               u ''li'', u ''table'', u ''section''] \<or>
                 (tag d = u ''div'' \<and> isin (u ''content'') (el_get_str d (u ''class''))))
       (descendants e)"

definition structure_score :: "element \<Rightarrow> int" where
  "structure_score e =
     (if length (structured_elements e) > 5
      then min (int (length (structured_elements e)) * 2) 40 else 0)"

definition image_score :: "element \<Rightarrow> int" where
  "image_score e =
     (let images = xpath_tags [u ''img''] e in
      if length images > 0 then min (int (length images) * 3) 150 else 0)"

definition chrome_tags :: "ustr list" where
  "chrome_tags = [u ''header'', u ''footer'', u ''nav'', u ''aside'']"

text \<open>
  \<open>calculate_content_container_score\<close>: the score starts at 0 and the steps add to it in
  the order of the source, with its three early returns.
\<close>

definition calculate_content_container_score :: "element \<Rightarrow> int" where
  "calculate_content_container_score e =
     (if lower (tag e) \<in> set chrome_tags then - 500
      else
        let score2 = 0 - int (interference_count e) * 200 in
        if interference_count e \<ge> 2 then score2
        else
          let score3 = score2 - header_penalty e - footer_penalty e in
          if score3 < - 200 then score3
          else score3 + length_score e + role_score e + content_pattern_score e +
               positive_score e + structure_score e + image_score e)"


section \<open>Properties of the candidate scorer\<close>

lemma lower_chrome_tags:
  "lower (u ''header'') = u ''header''" "lower (u ''footer'') = u ''footer''"
  "lower (u ''nav'') = u ''nav''" "lower (u ''aside'') = u ''aside''"
  by code_simp+

definition ex_chrome :: element where
  "ex_chrome =
     Element (u ''nav'') [(u ''class'', u ''main content''), (u ''role'', u ''viewlist'')]
       (u ''2024-01-05 login home search'')
       [Element (u ''img'') [] [] [] [], Element (u ''p'') [] (u ''text'') [] []] []"

text \<open>
  Claim C5. A node whose tag is \<open>header\<close>, \<open>footer\<close>, \<open>nav\<close> or \<open>aside\<close> scores exactly
  \<open>-500\<close>, whatever its attributes, text and children: no other signal contributes.
\<close>

theorem chrome_tag_scores_minus_500:
  assumes "tag e \<in> {u ''header'', u ''footer'', u ''nav'', u ''aside''}"
  shows "calculate_content_container_score e = - 500"
proof -
  from assms have "lower (tag e) \<in> set chrome_tags"
    by (auto simp: chrome_tags_def lower_chrome_tags)
  then show ?thesis
    by (simp add: calculate_content_container_score_def)
qed

theorem chrome_tag_scores_minus_500_witness:
  "tag ex_chrome = u ''nav'' \<and> calculate_content_container_score ex_chrome = - 500"
proof -
  have t: "tag ex_chrome = u ''nav''"
    by (simp add: ex_chrome_def)
  then have "tag ex_chrome \<in> {u ''header'', u ''footer'', u ''nav'', u ''aside''}"
    by simp
  from chrome_tag_scores_minus_500 [OF this] t show ?thesis
    by simp
qed

lemma breadcrumb_no_header_keywords:
  assumes "isin breadcrumb_phrase (lower (text_content e)) \<or>
           isin breadcrumb_phrase_de (lower (text_content e))"
  shows "found_header_keywords e = []"
  using assms by (simp add: found_header_keywords_def)

definition ex_breadcrumb :: element where
  "ex_breadcrumb =
     Element (u ''div'') []
       ([0x5F53, 0x524D, 0x4F4D, 0x7F6E] @ u '': login register home search menu '' @
        u ''icp copyright powered by'') [] []"

text \<open>
  Claim C10. When the text of a node contains one of the two breadcrumb phrases, no header
  keyword is counted, so the header penalty is 0 however many header keywords the text
  holds; the footer keywords are counted as ever and the footer penalty is taken off. The
  score is then the one of the source with the header penalty left out.
\<close>

theorem breadcrumb_suppresses_header_penalty:
  assumes "isin breadcrumb_phrase (lower (text_content e)) \<or>
           isin breadcrumb_phrase_de (lower (text_content e))"
  shows "header_content_count e = 0 \<and> header_penalty e = 0 \<and>
         footer_content_count e =
           length (filter (\<lambda>keyword. isin keyword (lower (text_content e)))
                     footer_content_keywords) \<and>
         calculate_content_container_score e =
           (if lower (tag e) \<in> set chrome_tags then - 500
            else if interference_count e \<ge> 2 then 0 - int (interference_count e) * 200
            else if 0 - int (interference_count e) * 200 - footer_penalty e < - 200
              then 0 - int (interference_count e) * 200 - footer_penalty e
            else 0 - int (interference_count e) * 200 - footer_penalty e + length_score e +
                 role_score e + content_pattern_score e + positive_score e +
                 structure_score e + image_score e)"
proof -
  have c: "header_content_count e = 0"
    using breadcrumb_no_header_keywords [OF assms] by (simp add: header_content_count_def)
  then have p: "header_penalty e = 0"
    by (simp add: header_penalty_def)
  have f: "footer_content_count e =
           length (filter (\<lambda>keyword. isin keyword (lower (text_content e)))
                     footer_content_keywords)"
    by (simp add: footer_content_count_def found_footer_keywords_def)
  have s: "calculate_content_container_score e =
           (if lower (tag e) \<in> set chrome_tags then - 500
            else if interference_count e \<ge> 2 then 0 - int (interference_count e) * 200
            else if 0 - int (interference_count e) * 200 - footer_penalty e < - 200
              then 0 - int (interference_count e) * 200 - footer_penalty e
            else 0 - int (interference_count e) * 200 - footer_penalty e + length_score e +
                 role_score e + content_pattern_score e + positive_score e +
                 structure_score e + image_score e)"
    by (simp add: calculate_content_container_score_def p Let_def)
  from c p f s show ?thesis
    by blast
qed

theorem breadcrumb_suppresses_header_penalty_witness:
  "isin breadcrumb_phrase (lower (text_content ex_breadcrumb)) \<and>
   length (filter (\<lambda>keyword. isin keyword (lower (text_content ex_breadcrumb)))
             header_content_keywords) = 5 \<and>
   header_penalty ex_breadcrumb = 0 \<and> footer_penalty ex_breadcrumb = 300 \<and>
   calculate_content_container_score ex_breadcrumb = - 300"
proof -
  have h: "isin breadcrumb_phrase (lower (text_content ex_breadcrumb))"
    by code_simp
  have n: "length (filter (\<lambda>keyword. isin keyword (lower (text_content ex_breadcrumb)))
             header_content_keywords) = 5"
    by code_simp
  have fp: "footer_penalty ex_breadcrumb = 300"
    by code_simp
  have t: "lower (tag ex_breadcrumb) \<notin> set chrome_tags"
    by code_simp
  have i: "interference_count ex_breadcrumb = 0"
    by code_simp
  from h have "isin breadcrumb_phrase (lower (text_content ex_breadcrumb)) \<or>
               isin breadcrumb_phrase_de (lower (text_content ex_breadcrumb))"
    by simp
  from breadcrumb_suppresses_header_penalty [OF this] h n fp t i show ?thesis
    by simp
qed


section \<open>Nodes inside a document\<close>

text \<open>
  A node is addressed by the document root and its path: the child indices from the root
  down to it. Two nodes of one document are the same object exactly when their paths are
  equal, and one lies below the other exactly when the other's path is a strict prefix of
  its own. \<open>chain d p\<close> lists the nodes from the root down to the node at \<open>p\<close>, each with
  its positional XPath step \<open>tag[k]\<close>, where \<open>k\<close> counts the node itself and the earlier
  siblings with its tag (the loop over \<open>getprevious()\<close>). Paths come from enumerations of
  the same tree; a path that leaves the tree stops at the last node it reaches.
\<close>

type_synonym path = "nat list"

definition step_of :: "element list \<Rightarrow> nat \<Rightarrow> ustr" where
  "step_of siblings i =
     tag (siblings ! i) @ u ''['' @
     str_nat (Suc (length (filter (\<lambda>sibling. tag sibling = tag (siblings ! i)) (take i siblings)))) @
     u '']''"

fun along :: "element \<Rightarrow> path \<Rightarrow> (element \<times> ustr) list" where
  "along e [] = []"
| "along e (i # p) =
     (if i < length (children e)
      then (children e ! i, step_of (children e) i) # along (children e ! i) p
      else [])"

definition chain :: "element \<Rightarrow> path \<Rightarrow> (element \<times> ustr) list" where
  "chain d p = (d, tag d @ u ''[1]'') # along d p"

definition node_at :: "element \<Rightarrow> path \<Rightarrow> element" where
  "node_at d p = fst (last (chain d p))"


section \<open>The locator generator\<close>

definition interference_keywords :: "ustr list" where
  "interference_keywords =
     [u ''header'', u ''footer'', u ''nav'', u ''navigation'', u ''menu'', u ''menubar'',
      u ''topbar'', u ''bottom'', u ''sidebar'', u ''aside'', u ''banner'', u ''ad'']"

definition is_interference_identifier :: "ustr \<Rightarrow> bool" where
  "is_interference_identifier identifier =
     (identifier \<noteq> [] \<and>
      list_ex (\<lambda>keyword. isin keyword (lower identifier)) interference_keywords)"

text \<open>Python's truth value of \<open>element.get(key)\<close>: present and not the empty string.\<close>

definition truthy :: "ustr option \<Rightarrow> bool" where
  "truthy v = (case v of None \<Rightarrow> False | Some s \<Rightarrow> s \<noteq> [])"

text \<open>The locator \<^verbatim>\<open>//tag[@attr='value']\<close> of the f-strings; 39 is the single quote.\<close>

definition attr_xpath :: "ustr \<Rightarrow> ustr \<Rightarrow> ustr \<Rightarrow> ustr" where
  "attr_xpath t a v = u ''//'' @ t @ u ''[@'' @ a @ u ''='' @ [39] @ v @ [39] @ u '']''"

definition clean_value :: "ustr option \<Rightarrow> bool" where
  "clean_value v = (case v of None \<Rightarrow> False | Some s \<Rightarrow> s \<noteq> [] \<and> \<not> is_interference_identifier s)"

fun first_clean_attr :: "element \<Rightarrow> ustr list \<Rightarrow> ustr option" where
  "first_clean_attr e [] = None"
| "first_clean_attr e (a # as) =
     (if clean_value (el_get e a) then Some (attr_xpath (tag e) a (el_get_str e a))
      else first_clean_attr e as)"

definition clean_parent_classes :: "ustr \<Rightarrow> ustr list" where
  "clean_parent_classes parent_classes =
     filter (\<lambda>cls. \<not> is_interference_identifier cls)
       (filter (\<lambda>cls. cls \<noteq> []) (map strip (split parent_classes)))"

definition has_clean_identifier :: "element \<Rightarrow> bool" where
  "has_clean_identifier parent =
     (clean_value (el_get parent (u ''id'')) \<or>
      (truthy (el_get parent (u ''class'')) \<and>
       clean_parent_classes (el_get_str parent (u ''class'')) \<noteq> []))"

text \<open>
  \<open>find_closest_clean_identifier\<close> walks the ancestors, the parent first, and stops without
  a result at the \<open>html\<close> element; its result is how many steps above the parent the
  ancestor it found stands.
\<close>

fun find_closest_clean_identifier :: "element list \<Rightarrow> nat option" where
  "find_closest_clean_identifier [] = None"
| "find_closest_clean_identifier (parent # rest) =
     (if tag parent = u ''html'' then None
      else if has_clean_identifier parent then Some 0
      else map_option Suc (find_closest_clean_identifier rest))"

text \<open>The last resort: the steps from below the nearest \<open>html\<close> element down to the node.\<close>

definition positional_xpath :: "(element \<times> ustr) list \<Rightarrow> ustr" where
  "positional_xpath ch =
     u ''/'' @ join (u ''/'')
       (map snd (rev (takeWhile (\<lambda>(e, s). tag e \<noteq> u ''html'') (rev ch))))"

lemma find_closest_clean_identifier_less:
  "find_closest_clean_identifier xs = Some j \<Longrightarrow> j < length xs"
  by (induction xs arbitrary: j) (auto split: if_splits)

lemma length_along: "length (along e p) \<le> length p"
  by (induction e p rule: along.induct) auto

lemma length_chain: "length (chain d p) \<le> Suc (length p)"
  by (simp add: chain_def length_along)

text \<open>
  \<open>generate_xpath\<close>. An lxml element with no children is false in a condition, so the
  first test of the source returns \<open>None\<close> for it.
\<close>

function generate_xpath :: "element \<Rightarrow> path \<Rightarrow> ustr option" where
  "generate_xpath d p =
     (if children (node_at d p) = [] then None
      else if clean_value (el_get (node_at d p) (u ''id''))
        then Some (attr_xpath (tag (node_at d p)) (u ''id'') (el_get_str (node_at d p) (u ''id'')))
      else if truthy (el_get (node_at d p) (u ''class''))
        then Some (attr_xpath (tag (node_at d p)) (u ''class'')
                     (el_get_str (node_at d p) (u ''class'')))
      else
        (case first_clean_attr (node_at d p)
                [u ''aria-label'', u ''role'', u ''data-testid'', u ''data-role''] of
           Some x \<Rightarrow> Some x
         | None \<Rightarrow>
            (case find_closest_clean_identifier (map fst (rev (butlast (chain d p)))) of
               None \<Rightarrow> Some (positional_xpath (chain d p))
             | Some j \<Rightarrow>
                (case generate_xpath d (take (length (chain d p) - 2 - j) p) of
                   None \<Rightarrow> Some (positional_xpath (chain d p))
                 | Some ancestor_xpath \<Rightarrow>
                     if ancestor_xpath = [] then Some (positional_xpath (chain d p))
                     else Some (ancestor_xpath @ u ''/'' @
                                join (u ''/'')
                                  (drop (length (chain d p) - 1 - j) (map snd (chain d p))))))))"
  by pat_completeness auto
termination
proof (relation "measure (\<lambda>(d, p). length p)")
  show "wf (measure (\<lambda>(d, p). length p))"
    by simp
next
  fix d :: element and p :: path and j :: nat
  assume "find_closest_clean_identifier (map fst (rev (butlast (chain d p)))) = Some j"
  then have "j < length (chain d p) - 1"
    using find_closest_clean_identifier_less by fastforce
  moreover have "length (chain d p) \<le> Suc (length p)"
    by (rule length_chain)
  ultimately have "length (chain d p) - 2 - j < length p"
    by arith
  then show "((d, take (length (chain d p) - 2 - j) p), (d, p)) \<in> measure (\<lambda>(d, p). length p)"
    by simp
qed


section \<open>Properties of the locator generator\<close>

definition ex_empty_id :: element where
  "ex_empty_id =
     Element (u ''div'') [(u ''id'', [])] [] [Element (u ''p'') [] (u ''text'') [] []] []"

definition ex_page :: element where
  "ex_page =
     Element (u ''html'') [] []
       [Element (u ''body'') [] []
          [Element (u ''div'') [(u ''id'', u ''Main-Content''), (u ''class'', u ''wide'')] []
             [Element (u ''p'') [] (u ''text'') [] []] []] []] []"

text \<open>
  Claim C4, as stated, fails: an \<open>id\<close> attribute that is present and empty contains no
  interference keyword, yet the generator passes it over (the test is on the truth value
  of the attribute) and here ends at the positional path.
\<close>

theorem generate_xpath_empty_id_counterexample:
  "el_get ex_empty_id (u ''id'') = Some [] \<and> \<not> is_interference_identifier [] \<and>
   children ex_empty_id \<noteq> [] \<and>
   generate_xpath ex_empty_id [] = Some (u ''/div[1]'') \<and>
   generate_xpath ex_empty_id [] \<noteq> Some (attr_xpath (u ''div'') (u ''id'') [])"
  by code_simp

text \<open>
  Claim C4, amended. For a node with at least one child element whose \<open>id\<close> attribute is
  present, not empty and, in lower case, contains no keyword of the interference list, the
  generator returns exactly \<^verbatim>\<open>//tag[@id='value']\<close> with the tag and the id as they stand.
  The locator is a function of the document and the node, so a second run gives the same
  string.
\<close>

theorem generate_xpath_clean_id:
  assumes "children (node_at d p) \<noteq> []"
    and "el_get (node_at d p) (u ''id'') = Some v"
    and "v \<noteq> []"
    and "\<not> is_interference_identifier v"
  shows "generate_xpath d p =
           Some (u ''//'' @ tag (node_at d p) @ u ''[@id='' @ [39] @ v @ [39] @ u '']'')"
proof -
  have c: "clean_value (el_get (node_at d p) (u ''id''))"
    using assms by (simp add: clean_value_def)
  have g: "el_get_str (node_at d p) (u ''id'') = v"
    using assms by (simp add: el_get_str_def)
  have a: "attr_xpath (tag (node_at d p)) (u ''id'') v =
           u ''//'' @ tag (node_at d p) @ u ''[@id='' @ [39] @ v @ [39] @ u '']''"
    by (simp add: attr_xpath_def u_def)
  show ?thesis
    by (subst generate_xpath.simps) (simp add: assms(1) c g a)
qed

theorem generate_xpath_clean_id_witness:
  "children (node_at ex_page [0, 0]) \<noteq> [] \<and>
   el_get (node_at ex_page [0, 0]) (u ''id'') = Some (u ''Main-Content'') \<and>
   \<not> is_interference_identifier (u ''Main-Content'') \<and>
   generate_xpath ex_page [0, 0] = Some (u ''//div[@id='' @ [39] @ u ''Main-Content'' @ [39] @ u '']'')"
proof -
  have c: "children (node_at ex_page [0, 0]) \<noteq> []"
    by code_simp
  have i: "el_get (node_at ex_page [0, 0]) (u ''id'') = Some (u ''Main-Content'')"
    by code_simp
  have n: "u ''Main-Content'' \<noteq> []"
    by code_simp
  have k: "\<not> is_interference_identifier (u ''Main-Content'')"
    by code_simp
  have t: "u ''//'' @ tag (node_at ex_page [0, 0]) @ u ''[@id='' = u ''//div[@id=''"
    by code_simp
  from generate_xpath_clean_id [OF c i n k] c i k t show ?thesis
    by simp
qed


section \<open>The structural cleaner\<close>

text \<open>
  The XPath expressions the cleaner removes by test the tag of an element and one of its
  attributes. \<open>remove_all s e\<close> is the tree after \<^verbatim>\<open>parent.remove(element)\<close> has run for every
  element below \<open>e\<close> that \<open>s\<close> selects: such an element goes with all it contains and with
  its tail. The root has no parent and stays.
\<close>

type_synonym selector = "ustr \<Rightarrow> (ustr \<times> ustr) list \<Rightarrow> bool"

definition selects :: "selector \<Rightarrow> element \<Rightarrow> bool" where
  "selects s e = s (tag e) (attrib e)"

definition sel_tag :: "ustr \<Rightarrow> selector" where
  "sel_tag t = (\<lambda>t' a. t' = t)"


fun remove_all :: "selector \<Rightarrow> element \<Rightarrow> element" where
  "remove_all s (Element t a x cs ta) =
     Element t a x (map (remove_all s) (filter (\<lambda>c. \<not> s (tag c) (attrib c)) cs)) ta"

text \<open>
  The cleaner is handed the body element and searches its whole document (the expressions
  start with \<open>//\<close>), so its state is the document root and the path of the body.
  \<open>path_after\<close> is the path of the body once the earlier siblings on its way are gone.
  An element removed from its parent becomes the root of its own tree: were the body
  inside one, the pipeline would go on in that tree, from \<open>detach_point\<close> down. A tree
  from the HTML parser has its body directly below the root, where this cannot happen.
\<close>

fun path_after :: "selector \<Rightarrow> element \<Rightarrow> path \<Rightarrow> path" where
  "path_after s e [] = []"
| "path_after s e (i # p) =
     (if i < length (children e)
      then length (filter (\<lambda>c. \<not> s (tag c) (attrib c)) (take i (children e))) #
           path_after s (children e ! i) p
      else [])"

definition detach_point :: "selector \<Rightarrow> element \<Rightarrow> path \<Rightarrow> nat" where
  "detach_point s d p =
     (case filter (\<lambda>k. selects s (node_at d (take k p))) (rev [1..<Suc (length p)]) of
        [] \<Rightarrow> 0
      | k # _ \<Rightarrow> k)"

definition remove_elements :: "selector \<Rightarrow> element \<times> path \<Rightarrow> element \<times> path" where
  "remove_elements s st =
     (let k = detach_point s (fst st) (snd st);
          r = node_at (fst st) (take k (snd st))
      in (remove_all s r, path_after s r (drop k (snd st))))"

text \<open>\<open>update_at d p f\<close>: the document with the node at \<open>p\<close> changed in place by \<open>f\<close>.\<close>

fun update_at :: "element \<Rightarrow> path \<Rightarrow> (element \<Rightarrow> element) \<Rightarrow> element" where
  "update_at e [] f = f e"
| "update_at e (i # p) f =
     (if i < length (children e)
      then Element (tag e) (attrib e) (etext e)
             ((children e)[i := update_at (children e ! i) p f]) (etail e)
      else f e)"



text \<open>
  \<open>remove_page_level_header_footer\<close>. Its first round removes the three semantic tags.
  Its second round looks at the \<open>div\<close> children of the body; \<open>is_header_footer\<close> is the flag
  the loop computes for one of them. The count the source returns is only logged.
\<close>

definition semantic_tags :: "selector list" where
  "semantic_tags = [sel_tag (u ''header''), sel_tag (u ''footer''), sel_tag (u ''nav'')]"

definition strong_header_indicators :: "ustr list" where
  "strong_header_indicators =
     [u ''header'', u ''top'', u ''navbar'', u ''navigation'', u ''menu-main'',
      u ''site-header'', u ''page-header'', u ''banner'', u ''topbar'']"

definition strong_footer_indicators :: "ustr list" where
  "strong_footer_indicators =
     [u ''footer'', u ''bottom'', u ''site-footer'', u ''page-footer'',
      u ''footerpc'', u ''wapfooter'', u ''g-bottom'']"

text \<open>The word lists of the second round are those of the scorer, word for word.\<close>

definition header_words :: "ustr list" where
  "header_words = header_content_keywords"

definition footer_words :: "ustr list" where
  "footer_words = footer_content_keywords"

definition has_strong_indicator :: "element \<Rightarrow> bool" where
  "has_strong_indicator div_el =
     list_ex (\<lambda>indicator. isin indicator (classes_of div_el) \<or> isin indicator (elem_id_of div_el))
       (strong_header_indicators @ strong_footer_indicators)"

definition header_count :: "element \<Rightarrow> nat" where
  "header_count div_el =
     length (filter (\<lambda>word. isin word (lower (text_content div_el))) header_words)"

definition footer_count :: "element \<Rightarrow> nat" where
  "footer_count div_el =
     length (filter (\<lambda>word. isin word (lower (text_content div_el))) footer_words)"

definition lowered_text_length :: "element \<Rightarrow> nat" where
  "lowered_text_length div_el = length (strip (lower (text_content div_el)))"

definition is_header_footer :: "element \<Rightarrow> bool" where
  "is_header_footer div_el =
     (if has_strong_indicator div_el then True
      else if header_count div_el \<ge> 4 \<and> lowered_text_length div_el < 1000 then True
      else footer_count div_el \<ge> 3 \<and> lowered_text_length div_el < 800)"

definition remove_marked_containers :: "element \<Rightarrow> element" where
  "remove_marked_containers body =
     Element (tag body) (attrib body) (etext body)
       (filter (\<lambda>c. \<not> (tag c = u ''div'' \<and> is_header_footer c)) (children body))
       (etail body)"

definition remove_page_level_header_footer :: "element \<times> path \<Rightarrow> element \<times> path" where
  "remove_page_level_header_footer st =
     (let st1 = foldl (\<lambda>st s. remove_elements s st) st semantic_tags
      in (update_at (fst st1) (snd st1) remove_marked_containers, snd st1))"


section \<open>Properties of the structural cleaner\<close>



lemma tag_remove_all [simp]: "tag (remove_all s e) = tag e"
  by (cases e) simp

lemma attrib_remove_all [simp]: "attrib (remove_all s e) = attrib e"
  by (cases e) simp

















section \<open>Examples for the structural cleaner\<close>










section \<open>The candidate selector\<close>

text \<open>
  The exceptions of the pipeline: what \<open>next\<close> raises on an exhausted generator, and
  whatever the HTML parser or the Markdown renderer raise, with its message.
\<close>

datatype exn = StopIteration | LibraryError ustr

text \<open>
  \<open>desc_nodes e\<close>: the elements below \<open>e\<close> in document order, each with its path from \<open>e\<close>.
\<close>

fun desc_nodes :: "element \<Rightarrow> (path \<times> element) list"
  and desc_list :: "nat \<Rightarrow> element list \<Rightarrow> (path \<times> element) list" where
  "desc_nodes (Element t a x cs ta) = desc_list 0 cs"
| "desc_list i [] = []"
| "desc_list i (c # cs) =
     ([i], c) # map (\<lambda>(q, y). (i # q, y)) (desc_nodes c) @ desc_list (Suc i) cs"

text \<open>\<open>is_child_of\<close> follows \<open>getparent()\<close> from the child until it meets the parent.\<close>

definition is_child_of :: "path \<Rightarrow> path \<Rightarrow> bool" where
  "is_child_of child_element parent_element = strict_prefix parent_element child_element"

text \<open>
  \<open>calculate_container_depth\<close>: the number of nodes from the container upwards, before
  the first one whose tag is \<open>body\<close> or \<open>html\<close>.
\<close>

definition calculate_container_depth :: "element \<Rightarrow> path \<Rightarrow> nat" where
  "calculate_container_depth d p =
     length (takeWhile (\<lambda>e. tag e \<notin> set [u ''body'', u ''html''])
               (rev (map fst (chain d p))))"

definition select_deepest_container_from_similar :: "element \<Rightarrow> path list \<Rightarrow> path option" where
  "select_deepest_container_from_similar d similar_containers =
     (case similar_containers of
        [] \<Rightarrow> None
      | [c] \<Rightarrow> Some c
      | _ \<Rightarrow>
         (case sort_key (\<lambda>(c, depth). - int depth)
                 (map (\<lambda>c. (c, calculate_container_depth d c)) similar_containers) of
            [] \<Rightarrow> None
          | (c, depth) # _ \<Rightarrow> Some c))"

text \<open>\<open>next(score for c, score in all_scored_containers if c == container)\<close>.\<close>

definition score_of :: "(path \<times> int) list \<Rightarrow> path \<Rightarrow> int" where
  "score_of all_scored_containers c =
     (case map_of all_scored_containers c of None \<Rightarrow> 0 | Some score \<Rightarrow> score)"

definition parent_child_pairs :: "path list \<Rightarrow> (path \<times> path) list" where
  "parent_child_pairs similar_containers =
     concat (map (\<lambda>container1.
               map (\<lambda>container2. (container1, container2))
                 (filter (\<lambda>container2. is_child_of container2 container1) similar_containers))
             similar_containers)"

definition valid_children :: "(path \<times> int) list \<Rightarrow> (path \<times> path) list \<Rightarrow> (path \<times> int \<times> int) list" where
  "valid_children all_scored pairs =
     map (\<lambda>(parent, child). (child, score_of all_scored child,
                               score_of all_scored parent - score_of all_scored child))
       (filter (\<lambda>(parent, child).
                  score_of all_scored parent - score_of all_scored child \<le> 20 \<and>
                  score_of all_scored child \<ge> 150) pairs)"

definition node_text_length :: "element \<Rightarrow> path \<Rightarrow> nat" where
  "node_text_length d p = text_length (node_at d p)"

text \<open>
  \<open>select_best_container_prefer_child\<close>. The test \<^verbatim>\<open>child_text_length < parent_text_length * 0.6\<close>
  is a comparison of an integer with a floating-point product; for lengths of any text
  that fits in memory it holds exactly when \<open>5 * child < 3 * parent\<close>.
\<close>

definition select_best_container_prefer_child ::
  "element \<Rightarrow> path list \<Rightarrow> (path \<times> int) list \<Rightarrow> exn + path option" where
  "select_best_container_prefer_child d similar_containers all_scored_containers =
     (let pairs = parent_child_pairs similar_containers in
      if list_ex (\<lambda>(parent, child). map_of all_scored_containers parent = None \<or>
                                   map_of all_scored_containers child = None) pairs
      then Inl StopIteration
      else
        (case sort_key (\<lambda>(child, child_score, score_diff). (- child_score, score_diff))
                (valid_children all_scored_containers pairs) of
           [] \<Rightarrow> Inr (select_deepest_container_from_similar d similar_containers)
         | (best_child, best_score, score_diff) # _ \<Rightarrow>
             (case filter (\<lambda>(parent, child). child = best_child) pairs of
                [] \<Rightarrow> Inr (Some best_child)
              | (parent, child) # _ \<Rightarrow>
                  if 5 * node_text_length d best_child < 3 * node_text_length d parent
                  then Inr (Some parent)
                  else Inr (Some best_child))))"

text \<open>The protection test of \<open>find_main_content_in_cleaned_html\<close>.\<close>

definition is_protected :: "element \<Rightarrow> bool" where
  "is_protected container =
     (isin (u ''printcontent'') (lower (elem_id_of container)) \<or>
      filter (\<lambda>x. el_get x (u ''id'') = Some (u ''printContent'') \<or>
                  el_get x (u ''id'') = Some (u ''printcontent'')) (descendants container) \<noteq> [] \<or>
      isin (u ''bg-fff'') (classes_of container) \<or>
      (isin (u ''container'') (classes_of container) \<and> length (descendants container) > 20))"

definition content_containers :: "element \<Rightarrow> path \<Rightarrow> (path \<times> element) list" where
  "content_containers d bp =
     map (\<lambda>(q, e). (bp @ q, e))
       (filter (\<lambda>(q, e). tag e \<in> set [u ''div'', u ''section'', u ''article'', u ''main''])
          (desc_nodes (node_at d bp)))"

definition scored_containers :: "(path \<times> element) list \<Rightarrow> (path \<times> int) list" where
  "scored_containers containers =
     concat (map (\<lambda>(p, container).
               if is_protected container
                 then [(p, max (calculate_content_container_score container) 50)]
               else if calculate_content_container_score container < - 100 then []
               else if calculate_content_container_score container > - 50
                 then [(p, calculate_content_container_score container)]
               else [])
             containers)"

text \<open>
  \<open>find_main_content_in_cleaned_html\<close>, on the document and the path of the cleaned body;
  the result is the path of the chosen node.
\<close>

definition find_main_content_in_cleaned_html :: "element \<Rightarrow> path \<Rightarrow> exn + path" where
  "find_main_content_in_cleaned_html d bp =
     (case content_containers d bp of
        [] \<Rightarrow> Inr bp
      | (first_path, first_container) # _ \<Rightarrow>
         (case sort_key (\<lambda>(p, score). - score) (scored_containers (content_containers d bp)) of
            [] \<Rightarrow> Inr first_path
          | (top_container, best_score) # rest \<Rightarrow>
             (let sorted = (top_container, best_score) # rest;
                  similar = filter (\<lambda>(p, score). \<bar>score - best_score\<bar> \<le> 20) sorted
              in if length similar > 1
                 then (case select_best_container_prefer_child d (map fst similar) sorted of
                         Inl e \<Rightarrow> Inl e
                       | Inr None \<Rightarrow> Inl StopIteration
                       | Inr (Some best_container) \<Rightarrow>
                           (case map_of sorted best_container of
                              None \<Rightarrow> Inl StopIteration
                            | Some final_score \<Rightarrow> Inr best_container))
                 else Inr top_container)))"


section \<open>Properties of the candidate selector\<close>




definition ex_nested_small :: element where
  "ex_nested_small =
     Element (u ''html'') [] []
       [Element (u ''body'') [] []
          [Element (u ''div'') [(u ''role'', u ''viewlist''), (u ''class'', u ''main'')] 
             ([0x901A, 0x77E5] @ u '' 2024-01-05 and a long introduction'')
             [Element (u ''div'') [(u ''role'', u ''viewlist''), (u ''class'', u ''content'')]
                ([0x901A, 0x77E5] @ u '' 2024-01-05'')
                [Element (u ''p'') [] (u ''Body'') [] []] []] []] []] []"



text \<open>
  The other branch, in a run of the selector: here the inner candidate holds 17 of the 54
  characters of the outer one, and the outer one is returned.
\<close>

lemma selector_keeps_parent_example:
  "scored_containers (content_containers ex_nested_small [0]) =
     [([0, 0], 240), ([0, 0, 0], 220)] \<and>
   map (node_text_length ex_nested_small) [[0, 0], [0, 0, 0]] = [54, 17] \<and>
   find_main_content_in_cleaned_html ex_nested_small [0] = Inr [0, 0]"
  by code_simp


section \<open>The extraction\<close>

text \<open>
  \<open>clean_markdown_content\<close>. \<open>re_sub r repl s\<close> is \<open>re.sub\<close> for a pattern that matches no
  empty string, as the one of the source: every match, from left to right, is replaced.
\<close>

function re_sub :: "re \<Rightarrow> ustr \<Rightarrow> ustr \<Rightarrow> ustr" where
  "re_sub r repl s =
     (case s of
        [] \<Rightarrow> []
      | c # cs \<Rightarrow>
          (case rmatch r s of
             [] \<Rightarrow> c # re_sub r repl cs
           | m # _ \<Rightarrow> if length m < length s then repl @ re_sub r repl m
                      else c # re_sub r repl cs))"
  by pat_completeness auto
termination
  by (relation "measure (\<lambda>(r, repl, s). length s)") auto

text \<open>\<open>s.split(sep)\<close> for a one-character separator; empty pieces are kept.\<close>

fun split_on :: "int \<Rightarrow> ustr \<Rightarrow> ustr \<Rightarrow> ustr list" where
  "split_on sep w [] = [rev w]"
| "split_on sep w (c # cs) =
     (if c = sep then rev w # split_on sep [] cs else split_on sep (c # w) cs)"

text \<open>The pattern \<^verbatim>\<open>\n\s*\n\s*\n\<close>; 10 is the line feed.\<close>

definition blank_lines :: re where
  "blank_lines = seqs [Lit [10], Star Spc, Lit [10], Star Spc, Lit [10]]"

fun cleaned_lines :: "bool \<Rightarrow> ustr list \<Rightarrow> ustr list" where
  "cleaned_lines prev_empty [] = []"
| "cleaned_lines prev_empty (line # lines) =
     (if strip line \<noteq> [] then line # cleaned_lines False lines
      else if \<not> prev_empty then [] # cleaned_lines True lines
      else cleaned_lines prev_empty lines)"

definition clean_markdown_content :: "ustr \<Rightarrow> ustr" where
  "clean_markdown_content markdown_content =
     join [10]
       (rev (dropWhile (\<lambda>line. line = [])
          (rev (dropWhile (\<lambda>line. line = [])
             (cleaned_lines False
                (map strip (split_on 10 [] (re_sub blank_lines [10, 10] markdown_content))))))))"

text \<open>
  \<open>preprocess_html_remove_interference\<close>: the body is the first match of \<open>//body\<close> in the
  document (the root counts), or the parsed tree itself.
\<close>

definition xpath_body :: "element \<Rightarrow> path list" where
  "xpath_body d =
     (if tag d = u ''body'' then [[]] else []) @
     map fst (filter (\<lambda>(q, e). tag e = u ''body'') (desc_nodes d))"

definition preprocess_html_remove_interference :: "element \<times> path \<Rightarrow> element \<times> path" where
  "preprocess_html_remove_interference page_tree =
     (case xpath_body (fst page_tree) of
        [] \<Rightarrow> remove_page_level_header_footer page_tree
      | body # _ \<Rightarrow> remove_page_level_header_footer (fst page_tree, body))"

definition find_article_container :: "element \<times> path \<Rightarrow> exn + element \<times> path" where
  "find_article_container page_tree =
     (let cleaned_body = preprocess_html_remove_interference page_tree in
      case find_main_content_in_cleaned_html (fst cleaned_body) (snd cleaned_body) of
        Inl e \<Rightarrow> Inl e
      | Inr main_content \<Rightarrow> Inr (fst cleaned_body, main_content))"

text \<open>
  The three-field result, and the logger: the one object all invocations share. A run
  appends its records to it; the records of the functions it calls are left out here, no
  code of the repository reads a record back.
\<close>

record extraction =
  markdown_content :: ustr
  xpath :: "ustr option"
  status :: ustr

datatype log_record = LogError ustr | LogInfo ustr

definition failed_result :: extraction where
  "failed_result = \<lparr>markdown_content = [], xpath = Some [], status = u ''failed''\<rparr>"

definition str_exn :: "exn \<Rightarrow> ustr" where
  "str_exn e = (case e of StopIteration \<Rightarrow> [] | LibraryError message \<Rightarrow> message)"

definition str_opt :: "ustr option \<Rightarrow> ustr" where
  "str_opt v = (case v of None \<Rightarrow> u ''None'' | Some s \<Rightarrow> s)"

definition msg_not_found :: ustr where
  "msg_not_found = [0x672A, 0x627E, 0x5230, 0x4E3B, 0x5185, 0x5BB9, 0x5BB9, 0x5668]"

definition msg_success :: ustr where
  "msg_success = [0x6210, 0x529F, 0x63D0, 0x53D6, 0x5185, 0x5BB9, 0xFF0C] @ u ''XPath: ''"

definition msg_length :: ustr where
  "msg_length = u ''Markdown'' @ [0x5185, 0x5BB9, 0x957F, 0x5EA6] @ u '': ''"

definition msg_error :: ustr where
  "msg_error = [0x63D0, 0x53D6, 0x5185, 0x5BB9, 0x65F6, 0x51FA, 0x9519] @ u '': ''"

text \<open>
  \<open>extract_content_to_markdown\<close>. The HTML parser (\<open>html.fromstring\<close>) and the rendering of
  the chosen element (\<open>html.tostring\<close>, BeautifulSoup and \<open>markdownify\<close>) are libraries: they
  are the parameters \<open>fromstring\<close> and \<open>to_markdown\<close>. The parser gives the root of the
  document it built and the path of the element it returns, or raises. \<open>try_block\<close> is the
  body of the \<open>try\<close>, \<open>Inl\<close> when an exception leaves it.
\<close>

definition try_block ::
  "(ustr \<Rightarrow> exn + element \<times> path) \<Rightarrow> (element \<Rightarrow> exn + ustr) \<Rightarrow> ustr \<Rightarrow>
   log_record list \<Rightarrow> exn + extraction \<times> log_record list" where
  "try_block fromstring to_markdown html_content logger =
     (case fromstring html_content of
        Inl e \<Rightarrow> Inl e
      | Inr tree \<Rightarrow>
         (case find_article_container tree of
            Inl e \<Rightarrow> Inl e
          | Inr main_container \<Rightarrow>
             if children (node_at (fst main_container) (snd main_container)) = []
             then Inr (failed_result, logger @ [LogError msg_not_found])
             else
               (case to_markdown (node_at (fst main_container) (snd main_container)) of
                  Inl e \<Rightarrow> Inl e
                | Inr rendered \<Rightarrow>
                   Inr (\<lparr>markdown_content = clean_markdown_content rendered,
                         xpath = generate_xpath (fst main_container) (snd main_container),
                         status = u ''success''\<rparr>,
                        logger @
                        [LogInfo (msg_success @
                            str_opt (generate_xpath (fst main_container) (snd main_container))),
                         LogInfo (msg_length @
                            str_nat (length (clean_markdown_content rendered)))]))))"

definition extract_content_to_markdown ::
  "(ustr \<Rightarrow> exn + element \<times> path) \<Rightarrow> (element \<Rightarrow> exn + ustr) \<Rightarrow> ustr \<Rightarrow>
   log_record list \<Rightarrow> extraction \<times> log_record list" where
  "extract_content_to_markdown fromstring to_markdown html_content logger =
     (case try_block fromstring to_markdown html_content logger of
        Inl e \<Rightarrow> (failed_result, logger @ [LogError (msg_error @ str_exn e)])
      | Inr r \<Rightarrow> r)"


section \<open>Properties of the extraction\<close>




lemma extraction_status:
  "status (fst (extract_content_to_markdown fromstring to_markdown html logger))
     \<in> {u ''success'', u ''failed''}"
  by (simp add: extract_content_to_markdown_def try_block_def failed_result_def split: sum.splits)

text \<open>
  A parser and a renderer for the examples: the parser knows two inputs and raises on the
  others, the empty string among them; the renderer gives the text of the element.
\<close>

definition ex_text_only :: element where
  "ex_text_only =
     Element (u ''html'') [] []
       [Element (u ''body'') [] [] [Element (u ''div'') [] (u ''hello'') [] []] []] []"

definition ex_paragraph :: element where
  "ex_paragraph =
     Element (u ''html'') [] []
       [Element (u ''body'') [] []
          [Element (u ''div'') [] [] [Element (u ''p'') [] (u ''hello'') [] []] []] []] []"

definition ex_parser :: "ustr \<Rightarrow> exn + element \<times> path" where
  "ex_parser html =
     (if html = u ''<div>hello</div>'' then Inr (ex_text_only, [0, 0])
      else if html = u ''<div><p>hello</p></div>'' then Inr (ex_paragraph, [0, 0])
      else Inl (LibraryError (u ''Document is empty'')))"

definition ex_renderer :: "element \<Rightarrow> exn + ustr" where
  "ex_renderer e = Inr (text_content e)"





text \<open>A run that succeeds: the same text inside a paragraph.\<close>

lemma extract_success_example:
  "fst (extract_content_to_markdown ex_parser ex_renderer (u ''<div><p>hello</p></div>'') []) =
     \<lparr>markdown_content = u ''hello'', xpath = Some (u ''/body[1]/div[1]''),
      status = u ''success''\<rparr>"
  by code_simp


section \<open>The list-container variant: its final validation\<close>




















section \<open>Properties of the final validation\<close>









end
